theory Spec2Isabelle
  imports Main "HOL-Library.Word" "HOL-Library.Signed_Division"
begin

section \<open>Ring states (model/ring\_states.go)\<close>

text \<open>Ring states are plain strings in the source; the constants keep their values.\<close>

definition RingStateStable :: string where
  "RingStateStable = ''stable''"

definition RingStateCreationRequested :: string where
  "RingStateCreationRequested = ''creation-requested''"

definition RingStateCreationFailed :: string where
  "RingStateCreationFailed = ''creation-failed''"

definition RingStateReleaseRequested :: string where
  "RingStateReleaseRequested = ''release-requested''"

definition RingStateReleaseFailed :: string where
  "RingStateReleaseFailed = ''release-failed''"

definition RingStateReleaseComplete :: string where
  "RingStateReleaseComplete = ''release-complete''"

definition RingStateSoakingRequested :: string where
  "RingStateSoakingRequested = ''soaking-requested''"

definition RingStateSoakingFailed :: string where
  "RingStateSoakingFailed = ''soaking-failed''"

definition RingStateReleaseRollbackRequested :: string where
  "RingStateReleaseRollbackRequested = ''release-rollback-requested''"

definition RingStateReleaseRollbackComplete :: string where
  "RingStateReleaseRollbackComplete = ''release-rollback-complete''"

definition RingStateReleaseRollbackFailed :: string where
  "RingStateReleaseRollbackFailed = ''release-rollback-failed''"

definition RingStateDeletionRequested :: string where
  "RingStateDeletionRequested = ''deletion-requested''"

definition RingStateDeletionFailed :: string where
  "RingStateDeletionFailed = ''deletion-failed''"

definition RingStateDeleted :: string where
  "RingStateDeleted = ''deleted''"

text \<open>
  Modelled from the spec: the constant \<open>model.RingStateReleaseInProgress\<close> is used by the
  installation group supervisor but is not declared in model/ring\_states.go; the spec's
  list of ring states gives its value.
\<close>

definition RingStateReleaseInProgress :: string where
  "RingStateReleaseInProgress = ''release-in-progress''"

lemmas ring_state_defs =
  RingStateStable_def RingStateCreationRequested_def RingStateCreationFailed_def
  RingStateReleaseRequested_def RingStateReleaseFailed_def RingStateReleaseComplete_def
  RingStateSoakingRequested_def RingStateSoakingFailed_def
  RingStateReleaseRollbackRequested_def RingStateReleaseRollbackComplete_def
  RingStateReleaseRollbackFailed_def RingStateDeletionRequested_def
  RingStateDeletionFailed_def RingStateDeleted_def RingStateReleaseInProgress_def

definition AllRingStates :: "string list" where
  "AllRingStates =
    [RingStateStable, RingStateCreationRequested, RingStateCreationFailed,
     RingStateReleaseRequested, RingStateReleaseFailed, RingStateReleaseComplete,
     RingStateSoakingRequested, RingStateSoakingFailed, RingStateReleaseRollbackRequested,
     RingStateReleaseRollbackFailed, RingStateReleaseRollbackComplete,
     RingStateDeletionRequested, RingStateDeletionFailed, RingStateDeleted]"

definition AllRingStatesPendingWork :: "string list" where
  "AllRingStatesPendingWork =
    [RingStateCreationRequested, RingStateReleaseRequested, RingStateSoakingRequested,
     RingStateReleaseRollbackRequested, RingStateDeletionRequested]"

definition AllRingRequestStates :: "string list" where
  "AllRingRequestStates =
    [RingStateCreationRequested, RingStateReleaseRequested, RingStateSoakingRequested,
     RingStateReleaseRollbackRequested, RingStateDeletionRequested]"

text \<open>
  Modelled from the spec: the struct \<open>model.Ring\<close> is declared outside the files at hand;
  the fields are those of the spec's data model. \<open>LockAcquiredBy\<close> is a nullable string.
\<close>

record Ring =
  ID :: string
  Name :: string
  Priority :: int
  SoakTime :: "64 word"
  State :: string
  DesiredReleaseID :: string
  ActiveReleaseID :: string
  ReleaseAt :: "64 word"
  CreateAt :: "64 word"
  DeleteAt :: "64 word"
  LockAcquiredBy :: "string option"
  LockAcquiredAt :: "64 word"

definition validTransitionToRingStateCreationRequested :: "string \<Rightarrow> bool" where
  "validTransitionToRingStateCreationRequested currentState =
    (if currentState = RingStateCreationRequested \<or> currentState = RingStateCreationFailed
     then True else False)"

definition validTransitionToRingStateReleaseRequested :: "string \<Rightarrow> bool" where
  "validTransitionToRingStateReleaseRequested currentState =
    (if currentState = RingStateStable \<or> currentState = RingStateReleaseRequested
        \<or> currentState = RingStateReleaseFailed
     then True else False)"

definition validTransitionToRingStateDeletionRequested :: "string \<Rightarrow> bool" where
  "validTransitionToRingStateDeletionRequested currentState =
    (if currentState = RingStateStable \<or> currentState = RingStateCreationRequested
        \<or> currentState = RingStateCreationFailed \<or> currentState = RingStateReleaseFailed
        \<or> currentState = RingStateDeletionRequested \<or> currentState = RingStateDeletionFailed
     then True else False)"

definition validTransitionToRingStateSoakingRequested :: "string \<Rightarrow> bool" where
  "validTransitionToRingStateSoakingRequested currentState =
    (if currentState = RingStateReleaseComplete \<or> currentState = RingStateSoakingRequested
        \<or> currentState = RingStateSoakingFailed
     then True else False)"

definition validTransitionToRingStateRollbackRequested :: "string \<Rightarrow> bool" where
  "validTransitionToRingStateRollbackRequested currentState =
    (if currentState = RingStateSoakingFailed \<or> currentState = RingStateReleaseFailed
        \<or> currentState = RingStateReleaseRollbackFailed
     then True else False)"

text \<open>The method \<open>(c *Ring) ValidTransitionState(newState)\<close>: a switch on the new state.\<close>

definition ValidTransitionState :: "Ring \<Rightarrow> string \<Rightarrow> bool" where
  "ValidTransitionState c newState =
    (if newState = RingStateCreationRequested then
       validTransitionToRingStateCreationRequested (Ring.State c)
     else if newState = RingStateReleaseRequested then
       validTransitionToRingStateReleaseRequested (Ring.State c)
     else if newState = RingStateDeletionRequested then
       validTransitionToRingStateDeletionRequested (Ring.State c)
     else if newState = RingStateSoakingRequested then
       validTransitionToRingStateSoakingRequested (Ring.State c)
     else if newState = RingStateReleaseRollbackRequested then
       validTransitionToRingStateRollbackRequested (Ring.State c)
     else False)"

lemmas validTransition_defs =
  ValidTransitionState_def validTransitionToRingStateCreationRequested_def
  validTransitionToRingStateReleaseRequested_def
  validTransitionToRingStateDeletionRequested_def
  validTransitionToRingStateSoakingRequested_def
  validTransitionToRingStateRollbackRequested_def

text \<open>The permitted API edges of the spec, as pairs (new state, current state).\<close>

definition permittedRingEdges :: "(string \<times> string) list" where
  "permittedRingEdges =
    [(''creation-requested'', ''creation-requested''),
     (''creation-requested'', ''creation-failed''),
     (''release-requested'', ''stable''),
     (''release-requested'', ''release-requested''),
     (''release-requested'', ''release-failed''),
     (''deletion-requested'', ''stable''),
     (''deletion-requested'', ''creation-requested''),
     (''deletion-requested'', ''creation-failed''),
     (''deletion-requested'', ''release-failed''),
     (''deletion-requested'', ''deletion-requested''),
     (''deletion-requested'', ''deletion-failed''),
     (''soaking-requested'', ''release-complete''),
     (''soaking-requested'', ''soaking-requested''),
     (''soaking-requested'', ''soaking-failed''),
     (''release-rollback-requested'', ''soaking-failed''),
     (''release-rollback-requested'', ''release-failed''),
     (''release-rollback-requested'', ''release-rollback-failed'')]"

section \<open>The data the installation group supervisor works on\<close>

text \<open>
  Modelled from the spec: the states of an installation group are the constants
  \<open>model.InstallationGroup...\<close>, declared outside the files at hand; their values are the
  installation group states listed by the spec.
\<close>

definition InstallationGroupStable :: string where
  "InstallationGroupStable = ''stable''"

definition InstallationGroupReleasePending :: string where
  "InstallationGroupReleasePending = ''release-pending''"

definition InstallationGroupReleaseRequested :: string where
  "InstallationGroupReleaseRequested = ''release-requested''"

definition InstallationGroupReleaseInProgress :: string where
  "InstallationGroupReleaseInProgress = ''release-in-progress''"

definition InstallationGroupReleaseFailed :: string where
  "InstallationGroupReleaseFailed = ''release-failed''"

definition InstallationGroupReleaseSoakingRequested :: string where
  "InstallationGroupReleaseSoakingRequested = ''soaking-requested''"

definition InstallationGroupReleaseSoakingFailed :: string where
  "InstallationGroupReleaseSoakingFailed = ''soaking-failed''"

lemmas installation_group_state_defs =
  InstallationGroupStable_def InstallationGroupReleasePending_def
  InstallationGroupReleaseRequested_def InstallationGroupReleaseInProgress_def
  InstallationGroupReleaseFailed_def InstallationGroupReleaseSoakingRequested_def
  InstallationGroupReleaseSoakingFailed_def

text \<open>
  Modelled from the spec: the pending-work set of installation groups, the list
  \<open>model.AllInstallationGroupStatesPendingWork\<close> of the absent states file.
\<close>

definition AllInstallationGroupStatesPendingWork :: "string list" where
  "AllInstallationGroupStatesPendingWork =
    [InstallationGroupReleasePending, InstallationGroupReleaseRequested,
     InstallationGroupReleaseInProgress, InstallationGroupReleaseSoakingRequested]"

text \<open>
  Modelled from the spec: the structs \<open>model.InstallationGroup\<close>, \<open>model.RingRelease\<close>,
  \<open>model.Webhook\<close> and \<open>model.WebhookPayload\<close> with the fields of the spec's data model.
  Timestamps are \<open>int64\<close> nanoseconds; \<open>SoakTime\<close> is a Go \<open>int\<close> (64 bits wide on the
  platforms the service runs on), which the supervisor converts with \<open>int64(...)\<close>.
  The constant \<open>model.TypeRing\<close> is the payload type \<open>"ring"\<close> of the spec.
\<close>

record InstallationGroup =
  ID :: string
  Name :: string
  SoakTime :: "64 word"
  State :: string
  ReleaseAt :: "64 word"
  LockAcquiredBy :: "string option"
  LockAcquiredAt :: "64 word"

record RingRelease =
  ID :: string
  Image :: string
  Version :: string
  Force :: bool
  EnvVariables :: "(string \<times> string) list"

record Webhook =
  ID :: string
  URL :: string
  OwnerID :: string

record WebhookPayload =
  Type :: string
  ID :: string
  NewState :: string
  OldState :: string
  Timestamp :: "64 word"

definition TypeRing :: string where
  "TypeRing = ''ring''"

text \<open>A Go \<open>error\<close> is an opaque value; only its presence matters to the supervisor.\<close>

datatype error = Error string

section \<open>The capabilities of the supervisor (supervisor source, lines 15--46)\<close>

text \<open>
  The store and the provisioner are Go interfaces: the supervisor is written against any
  implementation. An operation is a function on the state \<open>'s\<close> of the outside world
  (database, cluster); it returns its result and the world after the call. A Go result
  \<open>(value, err)\<close> is read by the supervisor error first, hence the sum: \<open>Inl\<close> is
  \<open>err != nil\<close>. \<open>GetWebhooks\<close> is only ever called without a filter.
\<close>

record 's installationGroupStore =
  GetInstallationGroupsPendingWork :: "'s \<Rightarrow> (error + InstallationGroup list) \<times> 's"
  GetInstallationGroupByID :: "string \<Rightarrow> 's \<Rightarrow> (error + InstallationGroup) \<times> 's"
  UpdateInstallationGroup :: "InstallationGroup \<Rightarrow> 's \<Rightarrow> error option \<times> 's"
  GetWebhooks :: "'s \<Rightarrow> (error + Webhook list) \<times> 's"
  GetRingFromInstallationGroupID :: "string \<Rightarrow> 's \<Rightarrow> (error + Ring) \<times> 's"
  LockRingInstallationGroup :: "string \<Rightarrow> string \<Rightarrow> 's \<Rightarrow> (error + bool) \<times> 's"
  UnlockRingInstallationGroup :: "string \<Rightarrow> string \<Rightarrow> bool \<Rightarrow> 's \<Rightarrow> (error + bool) \<times> 's"
  GetInstallationGroupsLocked :: "'s \<Rightarrow> (error + InstallationGroup list) \<times> 's"
  GetInstallationGroupsReleaseInProgress :: "'s \<Rightarrow> (error + InstallationGroup list) \<times> 's"
  GetRingRelease :: "string \<Rightarrow> 's \<Rightarrow> (error + RingRelease) \<times> 's"
  GetRingsPendingWork :: "'s \<Rightarrow> (error + Ring list) \<times> 's"
  UpdateRings :: "Ring list \<Rightarrow> 's \<Rightarrow> error option \<times> 's"

record 's installationGroupProvisioner =
  ReleaseInstallationGroup ::
    "InstallationGroup \<Rightarrow> string \<Rightarrow> string \<Rightarrow> 's \<Rightarrow> error option \<times> 's"
  SoakInstallationGroup :: "InstallationGroup \<Rightarrow> 's \<Rightarrow> error option \<times> 's"

text \<open>
  The struct \<open>InstallationGroupSupervisor\<close>. The logger is left out: logging does not
  change what the supervisor computes. \<open>unixNano\<close> is the wall clock that the source
  reads with \<open>time.Now().UnixNano()\<close>.
\<close>

record 's InstallationGroupSupervisor =
  store :: "'s installationGroupStore"
  provisioner :: "'s installationGroupProvisioner"
  instanceID :: string
  unixNano :: "'s \<Rightarrow> 64 word \<times> 's"

text \<open>
  The calls with an effect outside the supervisor are recorded, in order, next to the state
  of the world: provisioner calls, store updates and webhook deliveries.
\<close>

datatype event =
    ProvisionerRelease InstallationGroup string string
  | ProvisionerSoak InstallationGroup
  | StoreUpdateInstallationGroup InstallationGroup
  | StoreUpdateRings "Ring list"
  | WebhookPost Webhook WebhookPayload

record 's world =
  st :: 's
  trace :: "event list"

definition call :: "('s \<Rightarrow> 'a \<times> 's) \<Rightarrow> 's world \<Rightarrow> 'a \<times> 's world" where
  "call f w = (case f (st w) of (r, s') \<Rightarrow> (r, w\<lparr>st := s'\<rparr>))"

definition emit :: "event \<Rightarrow> 's world \<Rightarrow> 's world" where
  "emit e w = w\<lparr>trace := trace w @ [e]\<rparr>"

text \<open>
  Modelled from the spec: \<open>webhook.SendToAllWebhooks\<close> (package internal/webhook, absent)
  enumerates all webhooks, unfiltered, and posts the payload to each of them; delivery
  errors are logged and do not block.
\<close>

definition SendToAllWebhooks ::
  "'s installationGroupStore \<Rightarrow> WebhookPayload \<Rightarrow> 's world \<Rightarrow> error option \<times> 's world" where
  "SendToAllWebhooks str payload w =
    (case call (GetWebhooks str) w of
       (Inl err, w1) \<Rightarrow> (Some err, w1)
     | (Inr hooks, w1) \<Rightarrow> (None, fold (\<lambda>hook. emit (WebhookPost hook payload)) hooks w1))"

text \<open>
  Modelled from the spec: the lock object made by \<open>newInstallationGroupLock\<close> (absent).
  \<open>TryLock\<close> is the store's conditional lock acquisition for this instance and fails on
  a store error; \<open>Unlock\<close> asks the store to clear the marker, not forced, and a failure
  is only logged.
\<close>

definition TryLock :: "'s InstallationGroupSupervisor \<Rightarrow> string \<Rightarrow> 's world \<Rightarrow> bool \<times> 's world" where
  "TryLock s installationGroupID w =
    (case call (LockRingInstallationGroup (store s) installationGroupID (instanceID s)) w of
       (Inl err, w1) \<Rightarrow> (False, w1)
     | (Inr locked, w1) \<Rightarrow> (locked, w1))"

definition Unlock :: "'s InstallationGroupSupervisor \<Rightarrow> string \<Rightarrow> 's world \<Rightarrow> 's world" where
  "Unlock s installationGroupID w =
    snd (call (UnlockRingInstallationGroup (store s) installationGroupID (instanceID s) False) w)"

section \<open>The installation group supervisor\<close>

text \<open>
  Go's \<open>/\<close> on \<open>int64\<close> truncates towards zero and wraps; \<open>-\<close> wraps as word
  subtraction does.
\<close>

definition int64_div :: "64 word \<Rightarrow> 64 word \<Rightarrow> 64 word" where
  "int64_div a b = word_of_int (sint a sdiv sint b)"

definition Second :: "64 word" where
  "Second = 1000000000"

definition checkInstallationGroupPending ::
  "'s InstallationGroupSupervisor \<Rightarrow> InstallationGroup \<Rightarrow> 's world \<Rightarrow> string \<times> 's world" where
  "checkInstallationGroupPending s installationGroup w =
    (case call (GetRingFromInstallationGroupID (store s) (InstallationGroup.ID installationGroup)) w of
       (Inl err, w1) \<Rightarrow> (InstallationGroupReleaseFailed, w1)
     | (Inr ring, w1) \<Rightarrow>
         if Ring.State ring = RingStateReleaseFailed then (InstallationGroupReleaseFailed, w1)
         else if Ring.State ring \<noteq> RingStateReleaseRequested
                 \<and> Ring.State ring \<noteq> RingStateReleaseInProgress
         then (InstallationGroupReleasePending, w1)
         else
           (case call (GetInstallationGroupsLocked (store s)) w1 of
              (Inl err, w2) \<Rightarrow> (InstallationGroupReleaseFailed, w2)
            | (Inr installationGroupsLocked, w2) \<Rightarrow>
                (case call (GetInstallationGroupsReleaseInProgress (store s)) w2 of
                   (Inl err, w3) \<Rightarrow> (InstallationGroupReleaseFailed, w3)
                 | (Inr installationGroupsReleaseInProgress, w3) \<Rightarrow>
                     if length installationGroupsLocked > 1
                        \<or> length installationGroupsReleaseInProgress > 0
                     then (InstallationGroupReleasePending, w3)
                     else (InstallationGroupReleaseRequested, w3))))"

definition releaseInstallationGroup ::
  "'s InstallationGroupSupervisor \<Rightarrow> InstallationGroup \<Rightarrow> 's world \<Rightarrow> string \<times> 's world" where
  "releaseInstallationGroup s installationGroup w =
    (case call (GetRingFromInstallationGroupID (store s) (InstallationGroup.ID installationGroup)) w of
       (Inl err, w1) \<Rightarrow> (InstallationGroupReleaseFailed, w1)
     | (Inr ring, w1) \<Rightarrow>
         (case call (GetRingRelease (store s) (Ring.DesiredReleaseID ring)) w1 of
            (Inl err, w2) \<Rightarrow> (InstallationGroupReleaseFailed, w2)
          | (Inr release, w2) \<Rightarrow>
              (case call (ReleaseInstallationGroup (provisioner s) installationGroup
                            (Image release) (Version release))
                      (emit (ProvisionerRelease installationGroup (Image release) (Version release)) w2) of
                 (Some err, w3) \<Rightarrow> (InstallationGroupReleaseFailed, w3)
               | (None, w3) \<Rightarrow>
                   if Force release then (InstallationGroupStable, w3)
                   else (InstallationGroupReleaseSoakingRequested, w3))))"

definition soakInstallationGroup ::
  "'s InstallationGroupSupervisor \<Rightarrow> InstallationGroup \<Rightarrow> 's world \<Rightarrow> string \<times> 's world" where
  "soakInstallationGroup s installationGroup w =
    (case call (unixNano s) w of
       (now, w1) \<Rightarrow>
         let timePassed = int64_div (now - InstallationGroup.ReleaseAt installationGroup) Second in
         if timePassed <s InstallationGroup.SoakTime installationGroup
         then (InstallationGroupReleaseSoakingRequested, w1)
         else
           (case call (SoakInstallationGroup (provisioner s) installationGroup)
                   (emit (ProvisionerSoak installationGroup) w1) of
              (Some err, w2) \<Rightarrow> (InstallationGroupReleaseSoakingFailed, w2)
            | (None, w2) \<Rightarrow> (InstallationGroupStable, w2)))"

definition transitionInstallationGroup ::
  "'s InstallationGroupSupervisor \<Rightarrow> InstallationGroup \<Rightarrow> 's world \<Rightarrow> string \<times> 's world" where
  "transitionInstallationGroup s installationGroup w =
    (if InstallationGroup.State installationGroup = InstallationGroupReleasePending then
       checkInstallationGroupPending s installationGroup w
     else if InstallationGroup.State installationGroup = InstallationGroupReleaseRequested then
       releaseInstallationGroup s installationGroup w
     else if InstallationGroup.State installationGroup = InstallationGroupReleaseSoakingRequested then
       soakInstallationGroup s installationGroup w
     else (InstallationGroup.State installationGroup, w))"

text \<open>
  \<open>Supervise\<close> is given in four parts, in the order of the source: the webhook at its end
  (lines 148--159), the persisting of a changed state with the failure cascade (lines
  119--146), the work done under the lock (lines 92--117), and the whole method, which
  takes the lock and releases it on every way out (\<open>defer lock.Unlock()\<close>).
\<close>

definition Supervise_webhook ::
  "'s InstallationGroupSupervisor \<Rightarrow> InstallationGroup \<Rightarrow> string \<Rightarrow> string \<Rightarrow> 's world \<Rightarrow> 's world" where
  "Supervise_webhook s installationGroup newState oldState w =
    (case call (unixNano s) w of
       (now, w1) \<Rightarrow>
         let webhookPayload =
           \<lparr>Type = TypeRing, ID = InstallationGroup.ID installationGroup,
            NewState = newState, OldState = oldState, Timestamp = now\<rparr>
         in snd (SendToAllWebhooks (store s) webhookPayload w1))"

definition Supervise_persist ::
  "'s InstallationGroupSupervisor \<Rightarrow> InstallationGroup \<Rightarrow> string \<Rightarrow> 's world \<Rightarrow> 's world" where
  "Supervise_persist s installationGroup0 newState w =
    (let oldState = InstallationGroup.State installationGroup0 in
     case (if oldState = InstallationGroupReleaseRequested
              \<and> (newState = InstallationGroupReleaseSoakingRequested
                  \<or> newState = InstallationGroupStable)
           then (case call (unixNano s) w of
                   (now, w') \<Rightarrow>
                     (installationGroup0\<lparr>InstallationGroup.State := newState,
                        InstallationGroup.ReleaseAt := now\<rparr>, w'))
           else (installationGroup0\<lparr>InstallationGroup.State := newState\<rparr>, w)) of
       (installationGroup, w1) \<Rightarrow>
         (case call (UpdateInstallationGroup (store s) installationGroup)
                 (emit (StoreUpdateInstallationGroup installationGroup) w1) of
            (Some err, w2) \<Rightarrow> w2
          | (None, w2) \<Rightarrow>
              if newState = InstallationGroupReleaseFailed
                 \<or> newState = InstallationGroupReleaseSoakingFailed
              then
                (case call (GetRingsPendingWork (store s)) w2 of
                   (Inl err, w3) \<Rightarrow> w3
                 | (Inr rings0, w3) \<Rightarrow>
                     let rings = map (\<lambda>ring. ring\<lparr>Ring.State := RingStateReleaseFailed\<rparr>) rings0 in
                     (case call (UpdateRings (store s) rings) (emit (StoreUpdateRings rings) w3) of
                        (Some err, w4) \<Rightarrow> w4
                      | (None, w4) \<Rightarrow> Supervise_webhook s installationGroup newState oldState w4))
              else Supervise_webhook s installationGroup newState oldState w2))"

definition Supervise_locked ::
  "'s InstallationGroupSupervisor \<Rightarrow> InstallationGroup \<Rightarrow> 's world \<Rightarrow> 's world" where
  "Supervise_locked s installationGroup0 w =
    (let originalState = InstallationGroup.State installationGroup0 in
     case call (GetInstallationGroupByID (store s) (InstallationGroup.ID installationGroup0)) w of
       (Inl err, w1) \<Rightarrow> w1
     | (Inr installationGroup1, w1) \<Rightarrow>
         if InstallationGroup.State installationGroup1 \<noteq> originalState then w1
         else
           (case transitionInstallationGroup s installationGroup1 w1 of
              (newState, w2) \<Rightarrow>
                (case call (GetInstallationGroupByID (store s)
                              (InstallationGroup.ID installationGroup1)) w2 of
                   (Inl err, w3) \<Rightarrow> w3
                 | (Inr installationGroup2, w3) \<Rightarrow>
                     if InstallationGroup.State installationGroup2 = newState then w3
                     else Supervise_persist s installationGroup2 newState w3)))"

definition Supervise ::
  "'s InstallationGroupSupervisor \<Rightarrow> InstallationGroup \<Rightarrow> 's world \<Rightarrow> 's world" where
  "Supervise s installationGroup w =
    (case TryLock s (InstallationGroup.ID installationGroup) w of
       (False, w1) \<Rightarrow> w1
     | (True, w1) \<Rightarrow>
         Unlock s (InstallationGroup.ID installationGroup) (Supervise_locked s installationGroup w1))"

text \<open>\<open>Do\<close> always returns a nil error; the installation groups are supervised in turn.\<close>

definition Do :: "'s InstallationGroupSupervisor \<Rightarrow> 's world \<Rightarrow> error option \<times> 's world" where
  "Do s w =
    (case call (GetInstallationGroupsPendingWork (store s)) w of
       (Inl err, w1) \<Rightarrow> (None, w1)
     | (Inr installationGroups, w1) \<Rightarrow> (None, fold (Supervise s) installationGroups w1))"

section \<open>A reference store, provisioner and clock\<close>

text \<open>
  Modelled from the spec: the implementation of the store is outside the files at hand.
  This is the store contract of the spec over tables held in memory: discovery returns
  the rows whose state is in the pending-work set; read-by-ID returns the row or a
  not-found error; lock acquisition is a conditional update that succeeds iff the row
  moves from unlocked to locked by this caller; unlocking clears the marker only for its
  owner unless forced; updates are last-writer-wins on the row's data and leave the lock
  marker alone; every operation may fail with a transient I/O error (here: while it is
  listed in \<open>failingOperations\<close>). The provisioner is an opaque capability that succeeds or
  returns an error; the clock is a reading that an environment step advances.
\<close>

datatype operation =
    OpGetInstallationGroupsPendingWork
  | OpGetInstallationGroupByID
  | OpUpdateInstallationGroup
  | OpGetWebhooks
  | OpGetRingFromInstallationGroupID
  | OpLockRingInstallationGroup
  | OpUnlockRingInstallationGroup
  | OpGetInstallationGroupsLocked
  | OpGetInstallationGroupsReleaseInProgress
  | OpGetRingRelease
  | OpGetRingsPendingWork
  | OpUpdateRings
  | OpReleaseInstallationGroup
  | OpSoakInstallationGroup

record memory =
  installationGroupRows :: "InstallationGroup list"
  ringRows :: "Ring list"
  membershipRows :: "(string \<times> string) list"
  ringReleaseRows :: "RingRelease list"
  webhookRows :: "Webhook list"
  wallClock :: "64 word"
  failingOperations :: "operation list"

definition transientError :: error where
  "transientError = Error ''transient I/O error''"

definition notFound :: error where
  "notFound = Error ''not found''"

definition provisionerError :: error where
  "provisionerError = Error ''provisioner error''"

definition memRead :: "operation \<Rightarrow> (memory \<Rightarrow> error + 'a) \<Rightarrow> memory \<Rightarrow> (error + 'a) \<times> memory" where
  "memRead opn f m = (if opn \<in> set (failingOperations m) then (Inl transientError, m) else (f m, m))"

definition memWrite :: "operation \<Rightarrow> (memory \<Rightarrow> memory) \<Rightarrow> memory \<Rightarrow> error option \<times> memory" where
  "memWrite opn f m = (if opn \<in> set (failingOperations m) then (Some transientError, m) else (None, f m))"

definition memGetInstallationGroupsPendingWork ::
  "memory \<Rightarrow> (error + InstallationGroup list) \<times> memory" where
  "memGetInstallationGroupsPendingWork =
    memRead OpGetInstallationGroupsPendingWork
      (\<lambda>m. Inr (filter (\<lambda>g. InstallationGroup.State g \<in> set AllInstallationGroupStatesPendingWork)
                   (installationGroupRows m)))"

definition memGetInstallationGroupByID ::
  "string \<Rightarrow> memory \<Rightarrow> (error + InstallationGroup) \<times> memory" where
  "memGetInstallationGroupByID installationGroupID =
    memRead OpGetInstallationGroupByID
      (\<lambda>m. case find (\<lambda>g. InstallationGroup.ID g = installationGroupID) (installationGroupRows m) of
              None \<Rightarrow> Inl notFound
            | Some g \<Rightarrow> Inr g)"

definition memUpdateInstallationGroup ::
  "InstallationGroup \<Rightarrow> memory \<Rightarrow> error option \<times> memory" where
  "memUpdateInstallationGroup installationGroup =
    memWrite OpUpdateInstallationGroup
      (\<lambda>m. m\<lparr>installationGroupRows :=
               map (\<lambda>g. if InstallationGroup.ID g = InstallationGroup.ID installationGroup
                         then installationGroup
                                \<lparr>InstallationGroup.LockAcquiredBy := InstallationGroup.LockAcquiredBy g,
                                 InstallationGroup.LockAcquiredAt := InstallationGroup.LockAcquiredAt g\<rparr>
                         else g)
                   (installationGroupRows m)\<rparr>)"

definition memGetWebhooks :: "memory \<Rightarrow> (error + Webhook list) \<times> memory" where
  "memGetWebhooks = memRead OpGetWebhooks (\<lambda>m. Inr (webhookRows m))"

definition memGetRingFromInstallationGroupID ::
  "string \<Rightarrow> memory \<Rightarrow> (error + Ring) \<times> memory" where
  "memGetRingFromInstallationGroupID installationGroupID =
    memRead OpGetRingFromInstallationGroupID
      (\<lambda>m. case find (\<lambda>row. snd row = installationGroupID) (membershipRows m) of
              None \<Rightarrow> Inl notFound
            | Some row \<Rightarrow>
                (case find (\<lambda>r. Ring.ID r = fst row) (ringRows m) of
                   None \<Rightarrow> Inl notFound
                 | Some r \<Rightarrow> Inr r))"

definition memLockRingInstallationGroup ::
  "string \<Rightarrow> string \<Rightarrow> memory \<Rightarrow> (error + bool) \<times> memory" where
  "memLockRingInstallationGroup installationGroupID lockerID m =
    (if OpLockRingInstallationGroup \<in> set (failingOperations m) then (Inl transientError, m)
     else if list_ex (\<lambda>g. InstallationGroup.ID g = installationGroupID
                          \<and> InstallationGroup.LockAcquiredBy g = None) (installationGroupRows m)
     then (Inr True,
           m\<lparr>installationGroupRows :=
               map (\<lambda>g. if InstallationGroup.ID g = installationGroupID
                            \<and> InstallationGroup.LockAcquiredBy g = None
                         then g\<lparr>InstallationGroup.LockAcquiredBy := Some lockerID,
                                InstallationGroup.LockAcquiredAt := wallClock m\<rparr>
                         else g)
                   (installationGroupRows m)\<rparr>)
     else (Inr False, m))"

definition memUnlockRingInstallationGroup ::
  "string \<Rightarrow> string \<Rightarrow> bool \<Rightarrow> memory \<Rightarrow> (error + bool) \<times> memory" where
  "memUnlockRingInstallationGroup installationGroupID lockerID force m =
    (if OpUnlockRingInstallationGroup \<in> set (failingOperations m) then (Inl transientError, m)
     else if list_ex (\<lambda>g. InstallationGroup.ID g = installationGroupID
                          \<and> (force \<or> InstallationGroup.LockAcquiredBy g = Some lockerID))
               (installationGroupRows m)
     then (Inr True,
           m\<lparr>installationGroupRows :=
               map (\<lambda>g. if InstallationGroup.ID g = installationGroupID
                            \<and> (force \<or> InstallationGroup.LockAcquiredBy g = Some lockerID)
                         then g\<lparr>InstallationGroup.LockAcquiredBy := None,
                                InstallationGroup.LockAcquiredAt := 0\<rparr>
                         else g)
                   (installationGroupRows m)\<rparr>)
     else (Inr False, m))"

definition memGetInstallationGroupsLocked ::
  "memory \<Rightarrow> (error + InstallationGroup list) \<times> memory" where
  "memGetInstallationGroupsLocked =
    memRead OpGetInstallationGroupsLocked
      (\<lambda>m. Inr (filter (\<lambda>g. InstallationGroup.LockAcquiredBy g \<noteq> None) (installationGroupRows m)))"

definition memGetInstallationGroupsReleaseInProgress ::
  "memory \<Rightarrow> (error + InstallationGroup list) \<times> memory" where
  "memGetInstallationGroupsReleaseInProgress =
    memRead OpGetInstallationGroupsReleaseInProgress
      (\<lambda>m. Inr (filter (\<lambda>g. InstallationGroup.State g = InstallationGroupReleaseInProgress)
                   (installationGroupRows m)))"

definition memGetRingRelease :: "string \<Rightarrow> memory \<Rightarrow> (error + RingRelease) \<times> memory" where
  "memGetRingRelease releaseID =
    memRead OpGetRingRelease
      (\<lambda>m. case find (\<lambda>r. RingRelease.ID r = releaseID) (ringReleaseRows m) of
              None \<Rightarrow> Inl notFound
            | Some r \<Rightarrow> Inr r)"

definition memGetRingsPendingWork :: "memory \<Rightarrow> (error + Ring list) \<times> memory" where
  "memGetRingsPendingWork =
    memRead OpGetRingsPendingWork
      (\<lambda>m. Inr (filter (\<lambda>r. Ring.State r \<in> set AllRingStatesPendingWork) (ringRows m)))"

definition memUpdateRings :: "Ring list \<Rightarrow> memory \<Rightarrow> error option \<times> memory" where
  "memUpdateRings updated =
    memWrite OpUpdateRings
      (\<lambda>m. m\<lparr>ringRows :=
               map (\<lambda>r. case find (\<lambda>u. Ring.ID u = Ring.ID r) updated of
                           None \<Rightarrow> r
                         | Some u \<Rightarrow> u\<lparr>Ring.LockAcquiredBy := Ring.LockAcquiredBy r,
                                       Ring.LockAcquiredAt := Ring.LockAcquiredAt r\<rparr>)
                   (ringRows m)\<rparr>)"

definition memReleaseInstallationGroup ::
  "InstallationGroup \<Rightarrow> string \<Rightarrow> string \<Rightarrow> memory \<Rightarrow> error option \<times> memory" where
  "memReleaseInstallationGroup installationGroup img ver m =
    (if OpReleaseInstallationGroup \<in> set (failingOperations m) then (Some provisionerError, m)
     else (None, m))"

definition memSoakInstallationGroup ::
  "InstallationGroup \<Rightarrow> memory \<Rightarrow> error option \<times> memory" where
  "memSoakInstallationGroup installationGroup m =
    (if OpSoakInstallationGroup \<in> set (failingOperations m) then (Some provisionerError, m)
     else (None, m))"

definition memUnixNano :: "memory \<Rightarrow> 64 word \<times> memory" where
  "memUnixNano m = (wallClock m, m)"

definition memoryStore :: "memory installationGroupStore" where
  "memoryStore =
    \<lparr>GetInstallationGroupsPendingWork = memGetInstallationGroupsPendingWork,
     GetInstallationGroupByID = memGetInstallationGroupByID,
     UpdateInstallationGroup = memUpdateInstallationGroup,
     GetWebhooks = memGetWebhooks,
     GetRingFromInstallationGroupID = memGetRingFromInstallationGroupID,
     LockRingInstallationGroup = memLockRingInstallationGroup,
     UnlockRingInstallationGroup = memUnlockRingInstallationGroup,
     GetInstallationGroupsLocked = memGetInstallationGroupsLocked,
     GetInstallationGroupsReleaseInProgress = memGetInstallationGroupsReleaseInProgress,
     GetRingRelease = memGetRingRelease,
     GetRingsPendingWork = memGetRingsPendingWork,
     UpdateRings = memUpdateRings\<rparr>"

definition memoryProvisioner :: "memory installationGroupProvisioner" where
  "memoryProvisioner =
    \<lparr>ReleaseInstallationGroup = memReleaseInstallationGroup,
     SoakInstallationGroup = memSoakInstallationGroup\<rparr>"

definition memorySupervisor :: "string \<Rightarrow> memory InstallationGroupSupervisor" where
  "memorySupervisor inst =
    \<lparr>store = memoryStore, provisioner = memoryProvisioner,
     instanceID = inst, unixNano = memUnixNano\<rparr>"

section \<open>Several supervisors on one store\<close>

text \<open>
  The step relation of competing supervisor instances, as a schedule of actions run in
  order. An instance that has picked an installation group from its discovery query takes
  the lock (\<open>Acquire\<close>, the first lines of \<open>Supervise\<close>); later, holding the lock, it
  does the work and unlocks (\<open>Work\<close>, the rest of \<open>Supervise\<close>). Other instances may
  act in between. The environment lets time pass and operations fail or recover.
\<close>

datatype action =
    Acquire string InstallationGroup
  | Work string InstallationGroup
  | Elapse "64 word"
  | Outage "operation list"

definition holdsLock :: "string \<Rightarrow> string \<Rightarrow> memory \<Rightarrow> bool" where
  "holdsLock inst installationGroupID m =
    list_ex (\<lambda>g. InstallationGroup.ID g = installationGroupID
                 \<and> InstallationGroup.LockAcquiredBy g = Some inst) (installationGroupRows m)"

fun step :: "action \<Rightarrow> memory world \<Rightarrow> memory world" where
  "step (Acquire inst g) w =
     snd (TryLock (memorySupervisor inst) (InstallationGroup.ID g) w)"
| "step (Work inst g) w =
     (if holdsLock inst (InstallationGroup.ID g) (st w)
      then Unlock (memorySupervisor inst) (InstallationGroup.ID g)
             (Supervise_locked (memorySupervisor inst) g w)
      else w)"
| "step (Elapse d) w = w\<lparr>st := (st w)\<lparr>wallClock := wallClock (st w) + d\<rparr>\<rparr>"
| "step (Outage ops) w = w\<lparr>st := (st w)\<lparr>failingOperations := ops\<rparr>\<rparr>"

fun run :: "action list \<Rightarrow> memory world \<Rightarrow> memory world" where
  "run [] w = w"
| "run (a # as) w = run as (step a w)"






section \<open>A small fleet to run the supervisor on\<close>

definition groupA :: InstallationGroup where
  "groupA =
    \<lparr>InstallationGroup.ID = ''ig-a'', InstallationGroup.Name = ''group a'',
     InstallationGroup.SoakTime = 60,
     InstallationGroup.State = InstallationGroupReleasePending,
     InstallationGroup.ReleaseAt = 0, InstallationGroup.LockAcquiredBy = None,
     InstallationGroup.LockAcquiredAt = 0\<rparr>"

definition groupB :: InstallationGroup where
  "groupB =
    \<lparr>InstallationGroup.ID = ''ig-b'', InstallationGroup.Name = ''group b'',
     InstallationGroup.SoakTime = 60,
     InstallationGroup.State = InstallationGroupReleasePending,
     InstallationGroup.ReleaseAt = 0, InstallationGroup.LockAcquiredBy = None,
     InstallationGroup.LockAcquiredAt = 0\<rparr>"

definition ringR :: Ring where
  "ringR =
    \<lparr>Ring.ID = ''ring-r'', Ring.Name = ''ring r'', Ring.Priority = 1, Ring.SoakTime = 60,
     Ring.State = RingStateReleaseRequested, Ring.DesiredReleaseID = ''rel-1'',
     Ring.ActiveReleaseID = ''rel-0'', Ring.ReleaseAt = 0, Ring.CreateAt = 0,
     Ring.DeleteAt = 0, Ring.LockAcquiredBy = None, Ring.LockAcquiredAt = 0\<rparr>"

definition ringQ :: Ring where
  "ringQ =
    \<lparr>Ring.ID = ''ring-q'', Ring.Name = ''ring q'', Ring.Priority = 2, Ring.SoakTime = 60,
     Ring.State = RingStateCreationRequested, Ring.DesiredReleaseID = ''rel-1'',
     Ring.ActiveReleaseID = ''rel-0'', Ring.ReleaseAt = 0, Ring.CreateAt = 0,
     Ring.DeleteAt = 0, Ring.LockAcquiredBy = None, Ring.LockAcquiredAt = 0\<rparr>"

definition release1 :: RingRelease where
  "release1 =
    \<lparr>RingRelease.ID = ''rel-1'', RingRelease.Image = ''registry/app'',
     RingRelease.Version = ''v2'', RingRelease.Force = False,
     RingRelease.EnvVariables = []\<rparr>"

definition hook1 :: Webhook where
  "hook1 =
    \<lparr>Webhook.ID = ''hook-1'', Webhook.URL = ''https://example.test/hook'',
     Webhook.OwnerID = ''owner''\<rparr>"

definition fleet :: memory where
  "fleet =
    \<lparr>installationGroupRows = [groupA, groupB], ringRows = [ringR, ringQ],
     membershipRows = [(''ring-r'', ''ig-a''), (''ring-r'', ''ig-b'')],
     ringReleaseRows = [release1], webhookRows = [hook1],
     wallClock = 1700000000000000000, failingOperations = []\<rparr>"

definition world0 :: "memory world" where
  "world0 = \<lparr>st = fleet, trace = []\<rparr>"

definition groupRequested :: InstallationGroup where
  "groupRequested = groupA\<lparr>InstallationGroup.State := InstallationGroupReleaseRequested\<rparr>"

definition groupSoaking :: InstallationGroup where
  "groupSoaking =
    groupA\<lparr>InstallationGroup.State := InstallationGroupReleaseSoakingRequested,
           InstallationGroup.ReleaseAt := 1699999970000000000\<rparr>"

definition groupInProgress :: InstallationGroup where
  "groupInProgress = groupA\<lparr>InstallationGroup.State := InstallationGroupReleaseInProgress\<rparr>"

definition worldWith :: "InstallationGroup \<Rightarrow> memory world" where
  "worldWith g = \<lparr>st = fleet\<lparr>installationGroupRows := [g, groupB]\<rparr>, trace = []\<rparr>"

text \<open>The events that are bulk updates of rings.\<close>

fun isStoreUpdateRings :: "event \<Rightarrow> bool" where
  "isStoreUpdateRings (StoreUpdateRings updated) = True"
| "isStoreUpdateRings _ = False"

section \<open>Properties of the ring states\<close>

text \<open>
  C4: for every current state \<open>s\<close> and candidate state \<open>t\<close>, a ring in state \<open>s\<close> accepts
  \<open>t\<close> exactly when \<open>(t, s)\<close> is one of the permitted API edges; a ring in state
  \<open>deleted\<close> accepts no candidate at all.
\<close>

theorem ValidTransitionState_permitted_edges:
  "ValidTransitionState (c\<lparr>Ring.State := s\<rparr>) t = ((t, s) \<in> set permittedRingEdges)
   \<and> ValidTransitionState (c\<lparr>Ring.State := RingStateDeleted\<rparr>) t = False"
  by (simp add: validTransition_defs ring_state_defs permittedRingEdges_def)

text \<open>
  C8 as stated fails: \<open>release-in-progress\<close> is not among the ring states pending work,
  so the set is not the six-element set of the claim.
\<close>

theorem AllRingStatesPendingWork_counterexample:
  "set AllRingStatesPendingWork \<noteq>
    {''creation-requested'', ''release-requested'', ''release-in-progress'',
     ''soaking-requested'', ''release-rollback-requested'', ''deletion-requested''}"
proof
  assume eq: "set AllRingStatesPendingWork =
    {''creation-requested'', ''release-requested'', ''release-in-progress'',
     ''soaking-requested'', ''release-rollback-requested'', ''deletion-requested''}"
  have "''release-in-progress'' \<in>
    {''creation-requested'', ''release-requested'', ''release-in-progress'',
     ''soaking-requested'', ''release-rollback-requested'', ''deletion-requested''}"
    by simp
  with eq have "''release-in-progress'' \<in> set AllRingStatesPendingWork"
    by (simp only:)
  then show False
    by (simp add: AllRingStatesPendingWork_def ring_state_defs)
qed

text \<open>
  C8 (amended): the ring states pending work are exactly \<open>creation-requested\<close>,
  \<open>release-requested\<close>, \<open>soaking-requested\<close>, \<open>release-rollback-requested\<close> and
  \<open>deletion-requested\<close>.
\<close>

theorem AllRingStatesPendingWork_exact:
  "set AllRingStatesPendingWork =
    {''creation-requested'', ''release-requested'', ''soaking-requested'',
     ''release-rollback-requested'', ''deletion-requested''}"
  by (simp add: AllRingStatesPendingWork_def ring_state_defs)

section \<open>Auxiliary facts\<close>

lemma int_div_le_dividend:
  fixes k :: int
  assumes "0 \<le> k" and "0 < c"
  shows "k div c \<le> k"
  using zdiv_mono2 [of k 1 c] assms by simp

lemma sdiv_between:
  fixes k :: int
  assumes "0 < c"
  shows "min k 0 \<le> k sdiv c \<and> k sdiv c \<le> max k 0"
proof (cases "0 \<le> k")
  case True
  then have "k sdiv c = sgn k * (k div c)"
    using assms by (simp add: signed_divide_int_def)
  moreover have "0 \<le> k div c" "k div c \<le> k"
    using True assms by (simp_all add: pos_imp_zdiv_nonneg_iff int_div_le_dividend)
  ultimately show ?thesis
    using True by (cases "k = 0") (simp_all add: sgn_if)
next
  case False
  then have "k sdiv c = - ((- k) div c)"
    using assms by (simp add: signed_divide_int_def sgn_if)
  moreover have "0 \<le> (- k) div c" "(- k) div c \<le> - k"
    using False assms by (simp_all add: pos_imp_zdiv_nonneg_iff int_div_le_dividend)
  ultimately show ?thesis
    using False by simp
qed

text \<open>
  Dividing an \<open>int64\<close> by one second never overflows: the quotient read as a signed
  number is the truncated quotient of the dividend read as a signed number.
\<close>

lemma int64_div_Second: "sint (int64_div d Second) = sint d sdiv 1000000000"
proof -
  have b: "- 9223372036854775808 \<le> sint d" "sint d < 9223372036854775808"
    using sint_ge [of d] sint_lt [of d] by simp_all
  have "min (sint d) 0 \<le> sint d sdiv 1000000000
      \<and> sint d sdiv 1000000000 \<le> max (sint d) 0"
    by (rule sdiv_between) simp
  then have lo: "min (sint d) 0 \<le> sint d sdiv 1000000000"
    and hi: "sint d sdiv 1000000000 \<le> max (sint d) 0"
    by simp_all
  have "- 9223372036854775808 \<le> sint d sdiv 1000000000"
    and "sint d sdiv 1000000000 < 9223372036854775808"
    using b lo hi by linarith+
  then have "sint (word_of_int (sint d sdiv 1000000000) :: 64 word) = sint d sdiv 1000000000"
    by (simp add: sint_sbintrunc' signed_take_bit_int_eq_self)
  then show ?thesis
    by (simp add: int64_div_def Second_def)
qed

lemma fold_emit_world:
  "fold (\<lambda>hook. emit (WebhookPost hook payload)) hooks w =
   w\<lparr>trace := trace w @ map (\<lambda>hook. WebhookPost hook payload) hooks\<rparr>"
  by (induction hooks arbitrary: w) (simp_all add: emit_def)

lemma SendToAllWebhooks_trace:
  "\<exists>hooks. trace (snd (SendToAllWebhooks str payload w)) =
     trace w @ map (\<lambda>hook. WebhookPost hook payload) hooks"
proof (cases "GetWebhooks str (st w)")
  case (Pair r s1)
  show ?thesis
  proof (cases r)
    case (Inl err)
    with Pair have "trace (snd (SendToAllWebhooks str payload w)) =
        trace w @ map (\<lambda>hook. WebhookPost hook payload) []"
      by (simp add: SendToAllWebhooks_def call_def)
    then show ?thesis by blast
  next
    case (Inr hooks)
    with Pair have "trace (snd (SendToAllWebhooks str payload w)) =
        trace w @ map (\<lambda>hook. WebhookPost hook payload) hooks"
      by (simp add: SendToAllWebhooks_def call_def fold_emit_world)
    then show ?thesis by blast
  qed
qed

text \<open>
  Whatever the store and the clock do, the end of \<open>Supervise\<close> only adds webhook
  deliveries to the trace, all of them typed \<open>TypeRing\<close> and carrying the installation
  group's ID.
\<close>

lemma Supervise_webhook_trace:
  "\<exists>hooks now. trace (Supervise_webhook s ig newState oldState w) =
     trace w @ map (\<lambda>hook. WebhookPost hook
        \<lparr>Type = TypeRing, ID = InstallationGroup.ID ig, NewState = newState,
         OldState = oldState, Timestamp = now\<rparr>) hooks"
proof (cases "unixNano s (st w)")
  case (Pair now s1)
  let ?p = "\<lparr>Type = TypeRing, ID = InstallationGroup.ID ig, NewState = newState,
         OldState = oldState, Timestamp = now\<rparr>"
  obtain hooks where "trace (snd (SendToAllWebhooks (store s) ?p (w\<lparr>st := s1\<rparr>))) =
     trace (w\<lparr>st := s1\<rparr>) @ map (\<lambda>hook. WebhookPost hook ?p) hooks"
    using SendToAllWebhooks_trace by blast
  with Pair have "trace (Supervise_webhook s ig newState oldState w) =
     trace w @ map (\<lambda>hook. WebhookPost hook ?p) hooks"
    by (simp add: Supervise_webhook_def call_def)
  then show ?thesis by blast
qed

lemma Supervise_webhook_no_ring_update:
  "\<exists>posts. trace (Supervise_webhook s ig newState oldState w) = trace w @ posts
     \<and> filter isStoreUpdateRings posts = []"
proof -
  obtain hooks now where "trace (Supervise_webhook s ig newState oldState w) =
     trace w @ map (\<lambda>hook. WebhookPost hook
        \<lparr>Type = TypeRing, ID = InstallationGroup.ID ig, NewState = newState,
         OldState = oldState, Timestamp = now\<rparr>) hooks"
    using Supervise_webhook_trace by blast
  moreover have "filter isStoreUpdateRings (map (\<lambda>hook. WebhookPost hook
        \<lparr>Type = TypeRing, ID = InstallationGroup.ID ig, NewState = newState,
         OldState = oldState, Timestamp = now\<rparr>) hooks) = []"
    by (induction hooks) simp_all
  ultimately show ?thesis by blast
qed

text \<open>Unfolding the reference store, provisioner and fleet at a concrete input.\<close>

lemmas memory_defs =
  memorySupervisor_def memoryStore_def memoryProvisioner_def memRead_def memWrite_def
  memGetInstallationGroupsPendingWork_def memGetInstallationGroupByID_def
  memUpdateInstallationGroup_def memGetWebhooks_def memGetRingFromInstallationGroupID_def
  memLockRingInstallationGroup_def memUnlockRingInstallationGroup_def
  memGetInstallationGroupsLocked_def memGetInstallationGroupsReleaseInProgress_def
  memGetRingRelease_def memGetRingsPendingWork_def memUpdateRings_def
  memReleaseInstallationGroup_def memSoakInstallationGroup_def memUnixNano_def

lemmas fleet_defs =
  world0_def worldWith_def fleet_def groupA_def groupB_def groupRequested_def
  groupSoaking_def groupInProgress_def ringR_def ringQ_def release1_def hook1_def

lemmas supervisor_defs =
  call_def emit_def TryLock_def Unlock_def SendToAllWebhooks_def
  checkInstallationGroupPending_def releaseInstallationGroup_def soakInstallationGroup_def
  transitionInstallationGroup_def Supervise_webhook_def Supervise_persist_def
  Supervise_locked_def Supervise_def Do_def

text \<open>On the reference store the webhook at the end of \<open>Supervise\<close> changes no table.\<close>

lemma memory_Supervise_webhook_st:
  "st (Supervise_webhook (memorySupervisor inst) g newState oldState w) = st w"
  by (simp add: Supervise_webhook_def SendToAllWebhooks_def call_def fold_emit_world
      memorySupervisor_def memoryStore_def memGetWebhooks_def memRead_def memUnixNano_def)




lemma memRead_read_only: "snd (memRead opn f m) = m"
  by (simp add: memRead_def)













section \<open>Properties of the installation group supervisor\<close>

text \<open>
  C2 as stated fails: the parent ring is in \<open>release-requested\<close>, the only locked
  installation group is the caller's own and none is in release-in-progress, so the
  table of the claim gives \<open>release-requested\<close>; but the query for the locked groups
  fails, and the code returns \<open>release-failed\<close>.
\<close>

theorem release_pending_store_error_counterexample:
  "InstallationGroup.State groupA = ''release-pending''
   \<and> map Ring.State (ringRows (st (run [Acquire ''s1'' groupA,
          Outage [OpGetInstallationGroupsLocked]] world0)))
       = [''release-requested'', ''creation-requested'']
   \<and> map InstallationGroup.LockAcquiredBy (installationGroupRows (st (run [Acquire ''s1'' groupA,
          Outage [OpGetInstallationGroupsLocked]] world0)))
       = [Some ''s1'', None]
   \<and> map InstallationGroup.State (installationGroupRows (st (run [Acquire ''s1'' groupA,
          Outage [OpGetInstallationGroupsLocked]] world0)))
       = [''release-pending'', ''release-pending'']
   \<and> fst (transitionInstallationGroup (memorySupervisor ''s1'') groupA
          (run [Acquire ''s1'' groupA, Outage [OpGetInstallationGroupsLocked]] world0))
       = ''release-failed''"
  by code_simp

text \<open>
  C2 (amended): for an installation group in state \<open>release-pending\<close>, the computed next
  state is \<open>release-failed\<close> if the query for the parent ring fails or the ring is in
  \<open>release-failed\<close>; \<open>release-pending\<close> if the ring is in neither \<open>release-requested\<close>
  nor \<open>release-in-progress\<close>; and otherwise \<open>release-failed\<close> if the query for the
  locked groups or the query for the groups in release-in-progress fails,
  \<open>release-pending\<close> if more than one group is locked or some group is in
  release-in-progress, and \<open>release-requested\<close> in the remaining case. Nothing with an
  effect is called on the way. The hypotheses only name the answers of the store.
\<close>

theorem transitionInstallationGroup_release_pending:
  assumes "InstallationGroup.State ig = InstallationGroupReleasePending"
    and "GetRingFromInstallationGroupID (store s) (InstallationGroup.ID ig) (st w) = (ringAnswer, s1)"
    and "GetInstallationGroupsLocked (store s) s1 = (lockedAnswer, s2)"
    and "GetInstallationGroupsReleaseInProgress (store s) s2 = (inProgressAnswer, s3)"
  shows "fst (transitionInstallationGroup s ig w) =
     (case ringAnswer of
        Inl err \<Rightarrow> InstallationGroupReleaseFailed
      | Inr ring \<Rightarrow>
          if Ring.State ring = RingStateReleaseFailed then InstallationGroupReleaseFailed
          else if Ring.State ring \<noteq> RingStateReleaseRequested
                  \<and> Ring.State ring \<noteq> RingStateReleaseInProgress
               then InstallationGroupReleasePending
          else (case (lockedAnswer, inProgressAnswer) of
                  (Inr locked, Inr inProgress) \<Rightarrow>
                    if length locked > 1 \<or> inProgress \<noteq> []
                    then InstallationGroupReleasePending
                    else InstallationGroupReleaseRequested
                | _ \<Rightarrow> InstallationGroupReleaseFailed))
    \<and> trace (snd (transitionInstallationGroup s ig w)) = trace w"
  using assms
  by (auto simp add: transitionInstallationGroup_def checkInstallationGroupPending_def
        call_def ring_state_defs split: sum.splits)

theorem transitionInstallationGroup_release_pending_witness:
  "fst (transitionInstallationGroup (memorySupervisor ''s1'') groupA
          (step (Acquire ''s1'' groupA) world0)) = ''release-requested''
   \<and> fst (transitionInstallationGroup (memorySupervisor ''s2'') groupB
          (run [Acquire ''s1'' groupA, Acquire ''s2'' groupB] world0)) = ''release-pending''
   \<and> fst (transitionInstallationGroup (memorySupervisor ''s1'') groupA
          (run [Acquire ''s1'' groupA, Outage [OpGetInstallationGroupsReleaseInProgress]] world0))
       = ''release-failed''"
proof -
  let ?w1 = "step (Acquire ''s1'' groupA) world0"
  let ?w2 = "run [Acquire ''s1'' groupA, Acquire ''s2'' groupB] world0"
  let ?w3 = "run [Acquire ''s1'' groupA, Outage [OpGetInstallationGroupsReleaseInProgress]] world0"
  let ?a = "groupA\<lparr>InstallationGroup.LockAcquiredBy := Some ''s1'',
                   InstallationGroup.LockAcquiredAt := 1700000000000000000\<rparr>"
  let ?b = "groupB\<lparr>InstallationGroup.LockAcquiredBy := Some ''s2'',
                   InstallationGroup.LockAcquiredAt := 1700000000000000000\<rparr>"
  have a1: "InstallationGroup.State groupA = InstallationGroupReleasePending"
    and b1: "InstallationGroup.State groupB = InstallationGroupReleasePending"
    by (simp_all add: fleet_defs)
  have a2: "GetRingFromInstallationGroupID (store (memorySupervisor ''s1''))
              (InstallationGroup.ID groupA) (st ?w1) = (Inr ringR, st ?w1)"
    and a3: "GetInstallationGroupsLocked (store (memorySupervisor ''s1'')) (st ?w1)
              = (Inr [?a], st ?w1)"
    and a4: "GetInstallationGroupsReleaseInProgress (store (memorySupervisor ''s1'')) (st ?w1)
              = (Inr [], st ?w1)"
    by (simp_all add: supervisor_defs memory_defs fleet_defs installation_group_state_defs)
  have b2: "GetRingFromInstallationGroupID (store (memorySupervisor ''s2''))
              (InstallationGroup.ID groupB) (st ?w2) = (Inr ringR, st ?w2)"
    and b3: "GetInstallationGroupsLocked (store (memorySupervisor ''s2'')) (st ?w2)
              = (Inr [?a, ?b], st ?w2)"
    and b4: "GetInstallationGroupsReleaseInProgress (store (memorySupervisor ''s2'')) (st ?w2)
              = (Inr [], st ?w2)"
    by (simp_all add: supervisor_defs memory_defs fleet_defs installation_group_state_defs)
  have c2: "GetRingFromInstallationGroupID (store (memorySupervisor ''s1''))
              (InstallationGroup.ID groupA) (st ?w3) = (Inr ringR, st ?w3)"
    and c3: "GetInstallationGroupsLocked (store (memorySupervisor ''s1'')) (st ?w3)
              = (Inr [?a], st ?w3)"
    and c4: "GetInstallationGroupsReleaseInProgress (store (memorySupervisor ''s1'')) (st ?w3)
              = (Inl transientError, st ?w3)"
    by (simp_all add: supervisor_defs memory_defs fleet_defs installation_group_state_defs)
  show ?thesis
    using transitionInstallationGroup_release_pending [OF a1 a2 a3 a4]
      transitionInstallationGroup_release_pending [OF b1 b2 b3 b4]
      transitionInstallationGroup_release_pending [OF a1 c2 c3 c4]
    by (simp add: ringR_def ring_state_defs installation_group_state_defs)
qed

text \<open>
  C5 as stated fails: the store fails the query for the ring release; the provisioner
  would succeed and the release is not forced, so the claim gives a provisioner call and
  \<open>soaking-requested\<close>; the code returns \<open>release-failed\<close> and calls nothing.
\<close>

theorem release_requested_store_error_counterexample:
  "InstallationGroup.State groupRequested = ''release-requested''
   \<and> Force release1 = False
   \<and> failingOperations (st (step (Outage [OpGetRingRelease]) (worldWith groupRequested)))
       = [OpGetRingRelease]
   \<and> fst (transitionInstallationGroup (memorySupervisor ''s1'') groupRequested
          (step (Outage [OpGetRingRelease]) (worldWith groupRequested))) = ''release-failed''
   \<and> trace (snd (transitionInstallationGroup (memorySupervisor ''s1'') groupRequested
          (step (Outage [OpGetRingRelease]) (worldWith groupRequested)))) = []"
  by code_simp

text \<open>
  C5 (amended): for an installation group in state \<open>release-requested\<close>, the supervisor
  fetches the parent ring and then the ring's desired release. If either fetch fails, the
  next state is \<open>release-failed\<close> and the provisioner is not called. Otherwise the
  provisioner's \<open>ReleaseInstallationGroup\<close> is called once, with that release's image and
  version, and the next state is \<open>release-failed\<close> if the provisioner returns an error,
  \<open>stable\<close> if the release is forced, \<open>soaking-requested\<close> otherwise. And when a
  transition from \<open>release-requested\<close> into \<open>soaking-requested\<close> or \<open>stable\<close> is
  persisted, the clock is read and the store's \<open>UpdateInstallationGroup\<close> is called with
  the group in its new state and with \<open>ReleaseAt\<close> set to that reading; the webhook
  follows iff the store accepted the update. The hypotheses on the clock and the update
  only name their answers.
\<close>

theorem release_requested_transition_and_ReleaseAt:
  assumes req: "InstallationGroup.State ig = InstallationGroupReleaseRequested"
    and old: "InstallationGroup.State ig2 = InstallationGroupReleaseRequested"
    and new: "newState = InstallationGroupReleaseSoakingRequested \<or> newState = InstallationGroupStable"
    and clk: "unixNano s (st w') = (now, s1')"
    and upd: "UpdateInstallationGroup (store s)
                (ig2\<lparr>InstallationGroup.State := newState, InstallationGroup.ReleaseAt := now\<rparr>) s1'
              = (updateAnswer, s2')"
  shows "transitionInstallationGroup s ig w =
      (case GetRingFromInstallationGroupID (store s) (InstallationGroup.ID ig) (st w) of
         (Inl err, s1) \<Rightarrow> (InstallationGroupReleaseFailed, w\<lparr>st := s1\<rparr>)
       | (Inr ring, s1) \<Rightarrow>
           (case GetRingRelease (store s) (Ring.DesiredReleaseID ring) s1 of
              (Inl err, s2) \<Rightarrow> (InstallationGroupReleaseFailed, w\<lparr>st := s2\<rparr>)
            | (Inr release, s2) \<Rightarrow>
                (case ReleaseInstallationGroup (provisioner s) ig (Image release) (Version release) s2 of
                   (answer, s3) \<Rightarrow>
                     (case answer of
                        Some err \<Rightarrow> InstallationGroupReleaseFailed
                      | None \<Rightarrow> if Force release then InstallationGroupStable
                                else InstallationGroupReleaseSoakingRequested,
                      w\<lparr>st := s3,
                        trace := trace w @ [ProvisionerRelease ig (Image release) (Version release)]\<rparr>))))
    \<and> Supervise_persist s ig2 newState w' =
       (let stamped = ig2\<lparr>InstallationGroup.State := newState, InstallationGroup.ReleaseAt := now\<rparr>;
            w1 = w'\<lparr>trace := trace w' @ [StoreUpdateInstallationGroup stamped], st := s2'\<rparr>
        in case updateAnswer of
             Some err \<Rightarrow> w1
           | None \<Rightarrow> Supervise_webhook s stamped newState InstallationGroupReleaseRequested w1)"
proof
  show "transitionInstallationGroup s ig w =
      (case GetRingFromInstallationGroupID (store s) (InstallationGroup.ID ig) (st w) of
         (Inl err, s1) \<Rightarrow> (InstallationGroupReleaseFailed, w\<lparr>st := s1\<rparr>)
       | (Inr ring, s1) \<Rightarrow>
           (case GetRingRelease (store s) (Ring.DesiredReleaseID ring) s1 of
              (Inl err, s2) \<Rightarrow> (InstallationGroupReleaseFailed, w\<lparr>st := s2\<rparr>)
            | (Inr release, s2) \<Rightarrow>
                (case ReleaseInstallationGroup (provisioner s) ig (Image release) (Version release) s2 of
                   (answer, s3) \<Rightarrow>
                     (case answer of
                        Some err \<Rightarrow> InstallationGroupReleaseFailed
                      | None \<Rightarrow> if Force release then InstallationGroupStable
                                else InstallationGroupReleaseSoakingRequested,
                      w\<lparr>st := s3,
                        trace := trace w @ [ProvisionerRelease ig (Image release) (Version release)]\<rparr>))))"
    using req
    by (simp add: transitionInstallationGroup_def releaseInstallationGroup_def call_def emit_def
        installation_group_state_defs split: prod.split sum.split option.split)
next
  have nofail: "\<not> (newState = InstallationGroupReleaseFailed
                  \<or> newState = InstallationGroupReleaseSoakingFailed)"
    using new by (auto simp: installation_group_state_defs)
  show "Supervise_persist s ig2 newState w' =
       (let stamped = ig2\<lparr>InstallationGroup.State := newState, InstallationGroup.ReleaseAt := now\<rparr>;
            w1 = w'\<lparr>trace := trace w' @ [StoreUpdateInstallationGroup stamped], st := s2'\<rparr>
        in case updateAnswer of
             Some err \<Rightarrow> w1
           | None \<Rightarrow> Supervise_webhook s stamped newState InstallationGroupReleaseRequested w1)"
    using old new clk upd nofail
    by (cases updateAnswer) (simp_all add: Supervise_persist_def call_def emit_def Let_def)
qed

theorem release_requested_transition_and_ReleaseAt_witness:
  "transitionInstallationGroup (memorySupervisor ''s1'') groupRequested (worldWith groupRequested) =
     (''soaking-requested'',
      (worldWith groupRequested)\<lparr>trace := [ProvisionerRelease groupRequested ''registry/app'' ''v2'']\<rparr>)
   \<and> map (\<lambda>g. (InstallationGroup.State g, InstallationGroup.ReleaseAt g))
        (installationGroupRows (st (Supervise_persist (memorySupervisor ''s1'') groupRequested
           InstallationGroupReleaseSoakingRequested (worldWith groupRequested))))
       = [(''soaking-requested'', 1700000000000000000), (''release-pending'', 0)]"
proof -
  let ?s = "memorySupervisor ''s1''"
  let ?w = "worldWith groupRequested"
  let ?g = "groupRequested\<lparr>InstallationGroup.State := InstallationGroupReleaseSoakingRequested,
              InstallationGroup.ReleaseAt := 1700000000000000000\<rparr>"
  let ?m = "(st ?w)\<lparr>installationGroupRows := [?g, groupB]\<rparr>"
  have h1: "InstallationGroup.State groupRequested = InstallationGroupReleaseRequested"
    by (simp add: fleet_defs)
  have h2: "InstallationGroupReleaseSoakingRequested = InstallationGroupReleaseSoakingRequested
      \<or> InstallationGroupReleaseSoakingRequested = InstallationGroupStable"
    by simp
  have h3: "unixNano ?s (st ?w) = (1700000000000000000, st ?w)"
    by (simp add: memory_defs fleet_defs)
  have h4: "UpdateInstallationGroup (store ?s) ?g (st ?w) = (None, ?m)"
    by (simp add: memory_defs fleet_defs)
  note both = release_requested_transition_and_ReleaseAt [OF h1 h1 h2 h3 h4, of ?w]
  have first: "transitionInstallationGroup ?s groupRequested ?w =
     (''soaking-requested'', ?w\<lparr>trace := [ProvisionerRelease groupRequested ''registry/app'' ''v2'']\<rparr>)"
    unfolding both [THEN conjunct1]
    by (simp add: memory_defs fleet_defs installation_group_state_defs)
  have "st (Supervise_persist ?s groupRequested InstallationGroupReleaseSoakingRequested ?w) = ?m"
    unfolding both [THEN conjunct2]
    by (simp add: Let_def memory_Supervise_webhook_st)
  then have second: "map (\<lambda>g. (InstallationGroup.State g, InstallationGroup.ReleaseAt g))
        (installationGroupRows (st (Supervise_persist ?s groupRequested
           InstallationGroupReleaseSoakingRequested ?w)))
       = [(''soaking-requested'', 1700000000000000000), (''release-pending'', 0)]"
    by (simp add: fleet_defs installation_group_state_defs)
  from first second show ?thesis
    by (rule conjI)
qed

text \<open>
  C6 as stated fails: the provisioner fails the release of a \<open>release-requested\<close> group,
  which is persisted in \<open>release-failed\<close>; the store then fails the query for the rings
  pending work, and the supervisor gives up: no ring is updated, both rings pending work
  keep their state.
\<close>

theorem failure_cascade_store_error_counterexample:
  "map InstallationGroup.State
     (installationGroupRows (st (Supervise (memorySupervisor ''s1'') groupRequested
        (step (Outage [OpReleaseInstallationGroup, OpGetRingsPendingWork])
           (worldWith groupRequested)))))
     = [''release-failed'', ''release-pending'']
   \<and> map Ring.State
     (ringRows (st (Supervise (memorySupervisor ''s1'') groupRequested
        (step (Outage [OpReleaseInstallationGroup, OpGetRingsPendingWork])
           (worldWith groupRequested)))))
     = [''release-requested'', ''creation-requested'']
   \<and> filter isStoreUpdateRings
     (trace (Supervise (memorySupervisor ''s1'') groupRequested
        (step (Outage [OpReleaseInstallationGroup, OpGetRingsPendingWork])
           (worldWith groupRequested))))
     = []"
  by code_simp

text \<open>
  C6 (amended): when the supervisor persists an installation group in \<open>release-failed\<close>
  or \<open>soaking-failed\<close> and the store accepts the update, it fetches the rings pending
  work. If that fetch succeeds, it calls the store's \<open>UpdateRings\<close> once, with every one
  of those rings in state \<open>release-failed\<close>, whatever ring the group belongs to, and the
  webhook follows iff the store accepted the bulk update. If the fetch fails, or the
  group's own update was refused, no ring is updated and no webhook is sent. The
  hypotheses only name the answers of the store.
\<close>

theorem Supervise_persist_failure_cascade:
  assumes failed: "newState = InstallationGroupReleaseFailed
                   \<or> newState = InstallationGroupReleaseSoakingFailed"
    and upd: "UpdateInstallationGroup (store s) (ig\<lparr>InstallationGroup.State := newState\<rparr>) (st w)
              = (updateAnswer, s1)"
    and pend: "GetRingsPendingWork (store s) s1 = (pendingAnswer, s2)"
  shows "Supervise_persist s ig newState w =
     (let failedGroup = ig\<lparr>InstallationGroup.State := newState\<rparr>;
          w1 = w\<lparr>trace := trace w @ [StoreUpdateInstallationGroup failedGroup]\<rparr>
      in case updateAnswer of
           Some err \<Rightarrow> w1\<lparr>st := s1\<rparr>
         | None \<Rightarrow>
             (case pendingAnswer of
                Inl err \<Rightarrow> w1\<lparr>st := s2\<rparr>
              | Inr rings \<Rightarrow>
                  let failedRings = map (\<lambda>ring. ring\<lparr>Ring.State := RingStateReleaseFailed\<rparr>) rings;
                      w2 = w1\<lparr>trace := trace w1 @ [StoreUpdateRings failedRings]\<rparr>
                  in (case UpdateRings (store s) failedRings s2 of
                        (Some err, s3) \<Rightarrow> w2\<lparr>st := s3\<rparr>
                      | (None, s3) \<Rightarrow>
                          Supervise_webhook s failedGroup newState (InstallationGroup.State ig)
                            (w2\<lparr>st := s3\<rparr>))))
    \<and> filter isStoreUpdateRings (drop (length (trace w)) (trace (Supervise_persist s ig newState w))) =
       (case (updateAnswer, pendingAnswer) of
          (None, Inr rings) \<Rightarrow>
            [StoreUpdateRings (map (\<lambda>ring. ring\<lparr>Ring.State := RingStateReleaseFailed\<rparr>) rings)]
        | _ \<Rightarrow> [])"
proof -
  let ?ig = "ig\<lparr>InstallationGroup.State := newState\<rparr>"
  let ?w1 = "w\<lparr>trace := trace w @ [StoreUpdateInstallationGroup ?ig]\<rparr>"
  have nostamp: "\<not> (newState = InstallationGroupReleaseSoakingRequested
                   \<or> newState = InstallationGroupStable)"
    using failed by (auto simp: installation_group_state_defs)
  have eq: "Supervise_persist s ig newState w =
     (let failedGroup = ig\<lparr>InstallationGroup.State := newState\<rparr>;
          w1 = w\<lparr>trace := trace w @ [StoreUpdateInstallationGroup failedGroup]\<rparr>
      in case updateAnswer of
           Some err \<Rightarrow> w1\<lparr>st := s1\<rparr>
         | None \<Rightarrow>
             (case pendingAnswer of
                Inl err \<Rightarrow> w1\<lparr>st := s2\<rparr>
              | Inr rings \<Rightarrow>
                  let failedRings = map (\<lambda>ring. ring\<lparr>Ring.State := RingStateReleaseFailed\<rparr>) rings;
                      w2 = w1\<lparr>trace := trace w1 @ [StoreUpdateRings failedRings]\<rparr>
                  in (case UpdateRings (store s) failedRings s2 of
                        (Some err, s3) \<Rightarrow> w2\<lparr>st := s3\<rparr>
                      | (None, s3) \<Rightarrow>
                          Supervise_webhook s failedGroup newState (InstallationGroup.State ig)
                            (w2\<lparr>st := s3\<rparr>))))"
    using failed upd pend nostamp
    by (simp add: Supervise_persist_def call_def emit_def Let_def
          split: option.split sum.split prod.split)
  have tr: "filter isStoreUpdateRings (drop (length (trace w)) (trace (Supervise_persist s ig newState w))) =
       (case (updateAnswer, pendingAnswer) of
          (None, Inr rings) \<Rightarrow>
            [StoreUpdateRings (map (\<lambda>ring. ring\<lparr>Ring.State := RingStateReleaseFailed\<rparr>) rings)]
        | _ \<Rightarrow> [])"
  proof (cases updateAnswer)
    case (Some err)
    with eq show ?thesis by (simp add: Let_def)
  next
    case None
    note upd_ok = this
    show ?thesis
    proof (cases pendingAnswer)
      case (Inl err)
      with eq upd_ok show ?thesis by (simp add: Let_def)
    next
      case (Inr rings)
      let ?rings = "map (\<lambda>ring. ring\<lparr>Ring.State := RingStateReleaseFailed\<rparr>) rings"
      let ?w2 = "?w1\<lparr>trace := trace ?w1 @ [StoreUpdateRings ?rings]\<rparr>"
      obtain r s3 where ur: "UpdateRings (store s) ?rings s2 = (r, s3)"
        by (cases "UpdateRings (store s) ?rings s2")
      show ?thesis
      proof (cases r)
        case (Some err)
        with eq upd_ok Inr ur show ?thesis by (simp add: Let_def)
      next
        case None
        obtain posts where
          "trace (Supervise_webhook s ?ig newState (InstallationGroup.State ig) (?w2\<lparr>st := s3\<rparr>)) =
           trace (?w2\<lparr>st := s3\<rparr>) @ posts"
          and "filter isStoreUpdateRings posts = []"
          using Supervise_webhook_no_ring_update by blast
        with eq upd_ok Inr ur None show ?thesis by (simp add: Let_def)
      qed
    qed
  qed
  from eq tr show ?thesis
    by (rule conjI)
qed

theorem Supervise_persist_failure_cascade_witness:
  "map Ring.State (ringRows (st (Supervise_persist (memorySupervisor ''s1'') groupA
      InstallationGroupReleaseFailed world0))) = [''release-failed'', ''release-failed'']
   \<and> filter isStoreUpdateRings
      (drop (length (trace world0))
         (trace (Supervise_persist (memorySupervisor ''s1'') groupA
            InstallationGroupReleaseFailed world0))) =
     [StoreUpdateRings [ringR\<lparr>Ring.State := RingStateReleaseFailed\<rparr>,
                        ringQ\<lparr>Ring.State := RingStateReleaseFailed\<rparr>]]"
proof -
  let ?s = "memorySupervisor ''s1''"
  let ?g = "groupA\<lparr>InstallationGroup.State := InstallationGroupReleaseFailed\<rparr>"
  let ?m = "fleet\<lparr>installationGroupRows := [?g, groupB]\<rparr>"
  let ?rings = "[ringR\<lparr>Ring.State := RingStateReleaseFailed\<rparr>,
                 ringQ\<lparr>Ring.State := RingStateReleaseFailed\<rparr>]"
  let ?m' = "?m\<lparr>ringRows := ?rings\<rparr>"
  have h1: "InstallationGroupReleaseFailed = InstallationGroupReleaseFailed
      \<or> InstallationGroupReleaseFailed = InstallationGroupReleaseSoakingFailed"
    by simp
  have h2: "UpdateInstallationGroup (store ?s) ?g (st world0) = (None, ?m)"
    by (simp add: memory_defs fleet_defs)
  have h3: "GetRingsPendingWork (store ?s) ?m = (Inr [ringR, ringQ], ?m)"
    by (simp add: memory_defs fleet_defs AllRingStatesPendingWork_def ring_state_defs)
  note both = Supervise_persist_failure_cascade [OF h1 h2 h3]
  have h4: "UpdateRings (store ?s) ?rings ?m = (None, ?m')"
    by (simp add: memory_defs fleet_defs)
  have "st (Supervise_persist ?s groupA InstallationGroupReleaseFailed world0) = ?m'"
    unfolding both [THEN conjunct1]
    by (simp add: Let_def h4 memory_Supervise_webhook_st)
  then have first: "map Ring.State (ringRows (st (Supervise_persist ?s groupA
      InstallationGroupReleaseFailed world0))) = [''release-failed'', ''release-failed'']"
    by (simp add: ring_state_defs)
  have second: "filter isStoreUpdateRings
      (drop (length (trace world0))
         (trace (Supervise_persist ?s groupA InstallationGroupReleaseFailed world0))) =
     [StoreUpdateRings ?rings]"
    unfolding both [THEN conjunct2] by simp
  from first second show ?thesis
    by (rule conjI)
qed

text \<open>
  C7: for an installation group in state \<open>soaking-requested\<close>, with \<open>now\<close> the clock
  reading: while \<open>now - ReleaseAt\<close> (an \<open>int64\<close> difference), in whole seconds, is less
  than \<open>SoakTime\<close>, the state is returned unchanged and nothing but the clock has been
  touched: the provisioner is not called. Otherwise the provisioner's
  \<open>SoakInstallationGroup\<close> is called once, and the next state is \<open>stable\<close> on success
  and \<open>soaking-failed\<close> on a provisioner error.
\<close>

theorem transitionInstallationGroup_soaking_requested:
  assumes "InstallationGroup.State ig = InstallationGroupReleaseSoakingRequested"
    and "unixNano s (st w) = (now, s1)"
    and "SoakInstallationGroup (provisioner s) ig s1 = (res, s2)"
  shows "transitionInstallationGroup s ig w =
      (if sint (now - InstallationGroup.ReleaseAt ig) sdiv 1000000000
            < sint (InstallationGroup.SoakTime ig)
       then (InstallationGroup.State ig, w\<lparr>st := s1\<rparr>)
       else (case res of
               None \<Rightarrow> InstallationGroupStable
             | Some err \<Rightarrow> InstallationGroupReleaseSoakingFailed,
             w\<lparr>st := s2, trace := trace w @ [ProvisionerSoak ig]\<rparr>))"
  using assms
  by (simp add: transitionInstallationGroup_def soakInstallationGroup_def call_def emit_def
      installation_group_state_defs word_sless_alt int64_div_Second split: option.split)

theorem transitionInstallationGroup_soaking_requested_witness:
  "transitionInstallationGroup (memorySupervisor ''s1'') groupSoaking (worldWith groupSoaking) =
     (''soaking-requested'', worldWith groupSoaking)
   \<and> transitionInstallationGroup (memorySupervisor ''s1'') groupSoaking
       (step (Elapse 30000000000) (worldWith groupSoaking)) =
     (''stable'', (step (Elapse 30000000000) (worldWith groupSoaking))
                    \<lparr>trace := [ProvisionerSoak groupSoaking]\<rparr>)
   \<and> transitionInstallationGroup (memorySupervisor ''s1'') groupSoaking
       (run [Elapse 30000000000, Outage [OpSoakInstallationGroup]] (worldWith groupSoaking)) =
     (''soaking-failed'',
      (run [Elapse 30000000000, Outage [OpSoakInstallationGroup]] (worldWith groupSoaking))
         \<lparr>trace := [ProvisionerSoak groupSoaking]\<rparr>)"
proof -
  let ?s = "memorySupervisor ''s1''"
  let ?w = "worldWith groupSoaking"
  let ?w' = "step (Elapse 30000000000) (worldWith groupSoaking)"
  let ?w'' = "run [Elapse 30000000000, Outage [OpSoakInstallationGroup]] (worldWith groupSoaking)"
  have h1: "InstallationGroup.State groupSoaking = InstallationGroupReleaseSoakingRequested"
    by (simp add: fleet_defs)
  have a2: "unixNano ?s (st ?w) = (1700000000000000000, st ?w)"
    and a3: "SoakInstallationGroup (provisioner ?s) groupSoaking (st ?w) = (None, st ?w)"
    by (simp_all add: memory_defs fleet_defs)
  have b2: "unixNano ?s (st ?w') = (1700000030000000000, st ?w')"
    and b3: "SoakInstallationGroup (provisioner ?s) groupSoaking (st ?w') = (None, st ?w')"
    by (simp_all add: memory_defs fleet_defs)
  have c2: "unixNano ?s (st ?w'') = (1700000030000000000, st ?w'')"
    and c3: "SoakInstallationGroup (provisioner ?s) groupSoaking (st ?w'')
             = (Some provisionerError, st ?w'')"
    by (simp_all add: memory_defs fleet_defs)
  show ?thesis
    using transitionInstallationGroup_soaking_requested [OF h1 a2 a3]
      transitionInstallationGroup_soaking_requested [OF h1 b2 b3]
      transitionInstallationGroup_soaking_requested [OF h1 c2 c3]
    by (simp add: fleet_defs installation_group_state_defs signed_divide_int_def)
qed

text \<open>
  C10: for an installation group whose state is none of \<open>release-pending\<close>,
  \<open>release-requested\<close> and \<open>soaking-requested\<close>, the transition function returns the
  input state and leaves the world, trace included, as it was: no provisioner call, no
  store call. Under the lock, when the store returns the group in that same state at both
  reads, the supervisor adds nothing to the trace: no update, no provisioner call, no
  webhook.
\<close>

theorem transitionInstallationGroup_unexpected_state:
  assumes "InstallationGroup.State ig \<noteq> InstallationGroupReleasePending"
    and "InstallationGroup.State ig \<noteq> InstallationGroupReleaseRequested"
    and "InstallationGroup.State ig \<noteq> InstallationGroupReleaseSoakingRequested"
    and "GetInstallationGroupByID (store s) (InstallationGroup.ID ig) (st w) = (Inr ig1, s1)"
    and "GetInstallationGroupByID (store s) (InstallationGroup.ID ig1) s1 = (Inr ig2, s2)"
    and "InstallationGroup.State ig2 = InstallationGroup.State ig1"
  shows "transitionInstallationGroup s ig w = (InstallationGroup.State ig, w)
    \<and> trace (Supervise_locked s ig w) = trace w"
  using assms
  by (simp add: transitionInstallationGroup_def Supervise_locked_def call_def)

theorem transitionInstallationGroup_unexpected_state_witness:
  "transitionInstallationGroup (memorySupervisor ''s1'') groupInProgress (worldWith groupInProgress)
     = (''release-in-progress'', worldWith groupInProgress)
   \<and> trace (Supervise_locked (memorySupervisor ''s1'') groupInProgress (worldWith groupInProgress))
     = []"
proof -
  let ?s = "memorySupervisor ''s1''"
  let ?w = "worldWith groupInProgress"
  have h1: "InstallationGroup.State groupInProgress \<noteq> InstallationGroupReleasePending"
    and h2: "InstallationGroup.State groupInProgress \<noteq> InstallationGroupReleaseRequested"
    and h3: "InstallationGroup.State groupInProgress \<noteq> InstallationGroupReleaseSoakingRequested"
    by (simp_all add: fleet_defs installation_group_state_defs)
  have h4: "GetInstallationGroupByID (store ?s) (InstallationGroup.ID groupInProgress) (st ?w)
      = (Inr groupInProgress, st ?w)"
    by (simp add: memory_defs fleet_defs)
  have h5: "InstallationGroup.State groupInProgress = InstallationGroup.State groupInProgress"
    by simp
  show ?thesis
    using transitionInstallationGroup_unexpected_state [OF h1 h2 h3 h4 h4 h5]
    by (simp add: fleet_defs installation_group_state_defs)
qed

text \<open>
  C3 as stated fails: with the store failing only the query for the parent ring, the
  supervisor moves a \<open>release-pending\<close> installation group into \<open>release-failed\<close>
  (and, by the failure cascade, every ring pending work as well).
\<close>

theorem store_error_counterexample:
  "InstallationGroup.State groupA = ''release-pending''
   \<and> map InstallationGroup.State
        (installationGroupRows (st (snd (Do (memorySupervisor ''s1'')
           (step (Outage [OpGetRingFromInstallationGroupID]) world0)))))
       = [''release-failed'', ''release-failed'']
   \<and> map Ring.State
        (ringRows (st (snd (Do (memorySupervisor ''s1'')
           (step (Outage [OpGetRingFromInstallationGroupID]) world0)))))
       = [''release-failed'', ''release-failed'']"
  by code_simp

text \<open>
  C3 (amended): a store error during discovery in \<open>Do\<close> abandons the tick: no
  installation group is supervised, nothing is called or updated. A store error in a
  query made while computing the transition (the parent ring of a \<open>release-pending\<close> or
  \<open>release-requested\<close> group, the locked groups, the groups in release-in-progress, the
  ring release) makes the computed next state \<open>release-failed\<close>.
\<close>

theorem store_errors_in_discovery_and_transition:
  assumes disc: "GetInstallationGroupsPendingWork (store s) (st wa) = (Inl ea, sa)"
    and ringq:
      "InstallationGroup.State igb = InstallationGroupReleasePending
       \<or> InstallationGroup.State igb = InstallationGroupReleaseRequested"
      "GetRingFromInstallationGroupID (store s) (InstallationGroup.ID igb) (st wb) = (Inl eb, sb)"
    and lockq:
      "InstallationGroup.State igc = InstallationGroupReleasePending"
      "GetRingFromInstallationGroupID (store s) (InstallationGroup.ID igc) (st wc) = (Inr ringc, sc1)"
      "Ring.State ringc = RingStateReleaseRequested \<or> Ring.State ringc = RingStateReleaseInProgress"
      "GetInstallationGroupsLocked (store s) sc1 = (Inl ec, sc2)"
    and progq:
      "InstallationGroup.State igd = InstallationGroupReleasePending"
      "GetRingFromInstallationGroupID (store s) (InstallationGroup.ID igd) (st wd) = (Inr ringd, sd1)"
      "Ring.State ringd = RingStateReleaseRequested \<or> Ring.State ringd = RingStateReleaseInProgress"
      "GetInstallationGroupsLocked (store s) sd1 = (Inr lockedd, sd2)"
      "GetInstallationGroupsReleaseInProgress (store s) sd2 = (Inl ed, sd3)"
    and relq:
      "InstallationGroup.State ige = InstallationGroupReleaseRequested"
      "GetRingFromInstallationGroupID (store s) (InstallationGroup.ID ige) (st we) = (Inr ringe, se1)"
      "GetRingRelease (store s) (Ring.DesiredReleaseID ringe) se1 = (Inl ee, se2)"
  shows "Do s wa = (None, wa\<lparr>st := sa\<rparr>)
    \<and> transitionInstallationGroup s igb wb = (InstallationGroupReleaseFailed, wb\<lparr>st := sb\<rparr>)
    \<and> transitionInstallationGroup s igc wc = (InstallationGroupReleaseFailed, wc\<lparr>st := sc2\<rparr>)
    \<and> transitionInstallationGroup s igd wd = (InstallationGroupReleaseFailed, wd\<lparr>st := sd3\<rparr>)
    \<and> transitionInstallationGroup s ige we = (InstallationGroupReleaseFailed, we\<lparr>st := se2\<rparr>)"
proof (intro conjI)
  show "Do s wa = (None, wa\<lparr>st := sa\<rparr>)"
    using disc by (simp add: Do_def call_def)
  show "transitionInstallationGroup s igb wb = (InstallationGroupReleaseFailed, wb\<lparr>st := sb\<rparr>)"
    using ringq
    by (auto simp add: transitionInstallationGroup_def checkInstallationGroupPending_def
          releaseInstallationGroup_def call_def installation_group_state_defs)
  show "transitionInstallationGroup s igc wc = (InstallationGroupReleaseFailed, wc\<lparr>st := sc2\<rparr>)"
    using lockq
    by (auto simp add: transitionInstallationGroup_def checkInstallationGroupPending_def
          call_def ring_state_defs)
  show "transitionInstallationGroup s igd wd = (InstallationGroupReleaseFailed, wd\<lparr>st := sd3\<rparr>)"
    using progq
    by (auto simp add: transitionInstallationGroup_def checkInstallationGroupPending_def
          call_def ring_state_defs)
  show "transitionInstallationGroup s ige we = (InstallationGroupReleaseFailed, we\<lparr>st := se2\<rparr>)"
    using relq
    by (simp add: transitionInstallationGroup_def releaseInstallationGroup_def call_def
          installation_group_state_defs)
qed

theorem store_errors_in_discovery_and_transition_witness:
  "Do (memorySupervisor ''s1'') (step (Outage [OpGetInstallationGroupsPendingWork]) world0)
     = (None, step (Outage [OpGetInstallationGroupsPendingWork]) world0)
   \<and> transitionInstallationGroup (memorySupervisor ''s1'') groupA
       (step (Outage [OpGetRingFromInstallationGroupID]) world0)
     = (''release-failed'', step (Outage [OpGetRingFromInstallationGroupID]) world0)
   \<and> transitionInstallationGroup (memorySupervisor ''s1'') groupA
       (step (Outage [OpGetInstallationGroupsLocked]) world0)
     = (''release-failed'', step (Outage [OpGetInstallationGroupsLocked]) world0)
   \<and> transitionInstallationGroup (memorySupervisor ''s1'') groupA
       (step (Outage [OpGetInstallationGroupsReleaseInProgress]) world0)
     = (''release-failed'', step (Outage [OpGetInstallationGroupsReleaseInProgress]) world0)
   \<and> transitionInstallationGroup (memorySupervisor ''s1'') groupRequested
       (step (Outage [OpGetRingRelease]) (worldWith groupRequested))
     = (''release-failed'', step (Outage [OpGetRingRelease]) (worldWith groupRequested))"
proof -
  let ?s = "memorySupervisor ''s1''"
  let ?wa = "step (Outage [OpGetInstallationGroupsPendingWork]) world0"
  let ?wb = "step (Outage [OpGetRingFromInstallationGroupID]) world0"
  let ?wc = "step (Outage [OpGetInstallationGroupsLocked]) world0"
  let ?wd = "step (Outage [OpGetInstallationGroupsReleaseInProgress]) world0"
  let ?we = "step (Outage [OpGetRingRelease]) (worldWith groupRequested)"
  have a: "GetInstallationGroupsPendingWork (store ?s) (st ?wa) = (Inl transientError, st ?wa)"
    by (simp add: memory_defs fleet_defs)
  have b1: "InstallationGroup.State groupA = InstallationGroupReleasePending
       \<or> InstallationGroup.State groupA = InstallationGroupReleaseRequested"
    and b2: "GetRingFromInstallationGroupID (store ?s) (InstallationGroup.ID groupA) (st ?wb)
       = (Inl transientError, st ?wb)"
    by (simp_all add: memory_defs fleet_defs)
  have c1: "InstallationGroup.State groupA = InstallationGroupReleasePending"
    and c2: "GetRingFromInstallationGroupID (store ?s) (InstallationGroup.ID groupA) (st ?wc)
       = (Inr ringR, st ?wc)"
    and c3: "Ring.State ringR = RingStateReleaseRequested \<or> Ring.State ringR = RingStateReleaseInProgress"
    and c4: "GetInstallationGroupsLocked (store ?s) (st ?wc) = (Inl transientError, st ?wc)"
    by (simp_all add: memory_defs fleet_defs)
  have d2: "GetRingFromInstallationGroupID (store ?s) (InstallationGroup.ID groupA) (st ?wd)
       = (Inr ringR, st ?wd)"
    and d4: "GetInstallationGroupsLocked (store ?s) (st ?wd) = (Inr [], st ?wd)"
    and d5: "GetInstallationGroupsReleaseInProgress (store ?s) (st ?wd) = (Inl transientError, st ?wd)"
    by (simp_all add: memory_defs fleet_defs)
  have e1: "InstallationGroup.State groupRequested = InstallationGroupReleaseRequested"
    and e2: "GetRingFromInstallationGroupID (store ?s) (InstallationGroup.ID groupRequested) (st ?we)
       = (Inr ringR, st ?we)"
    and e3: "GetRingRelease (store ?s) (Ring.DesiredReleaseID ringR) (st ?we)
       = (Inl transientError, st ?we)"
    by (simp_all add: memory_defs fleet_defs)
  show ?thesis
    using store_errors_in_discovery_and_transition [OF a b1 b2 c1 c2 c3 c4 c1 d2 c3 d4 d5 e1 e2 e3]
    by (simp add: installation_group_state_defs)
qed

text \<open>
  C9 at a concrete input: supervising the \<open>release-pending\<close> group \<open>ig-a\<close> persists its
  new state and then posts to the one webhook a payload with the group's ID and states
  whose type is \<open>TypeRing\<close>, the type of a ring, not \<open>installation-group\<close>.
\<close>

theorem Supervise_webhook_payload_type:
  "trace (Supervise (memorySupervisor ''s1'') groupA world0) =
    [StoreUpdateInstallationGroup
       (groupA\<lparr>InstallationGroup.State := ''release-requested'',
               InstallationGroup.LockAcquiredBy := Some ''s1'',
               InstallationGroup.LockAcquiredAt := 1700000000000000000\<rparr>),
     WebhookPost hook1
       \<lparr>Type = TypeRing, ID = ''ig-a'', NewState = ''release-requested'',
        OldState = ''release-pending'', Timestamp = 1700000000000000000\<rparr>]
   \<and> TypeRing \<noteq> ''installation-group''"
  by code_simp




end
